theory Spec2Isabelle
  imports Main "HOL-Library.Sublist"
begin

section \<open>Text\<close>

text \<open>
  Python \<^verbatim>\<open>str\<close> values are modelled as \<^typ>\<open>string\<close>. The operator
  \<^verbatim>\<open>needle in haystack\<close> on strings is containment as a contiguous run of characters,
  which is \<^const>\<open>sublist\<close>. \<^verbatim>\<open>str.lower()\<close> is modelled on ASCII text: the letters
  \<^verbatim>\<open>A\<close> to \<^verbatim>\<open>Z\<close> are mapped to \<^verbatim>\<open>a\<close> to \<^verbatim>\<open>z\<close>, every other character is kept.
\<close>

definition py_in :: "string \<Rightarrow> string \<Rightarrow> bool" where
  "py_in needle haystack = sublist needle haystack"

definition lower_char :: "char \<Rightarrow> char" where
  "lower_char c =
     (let n = (of_char c :: nat) in if 65 \<le> n \<and> n \<le> 90 then char_of (n + 32) else c)"

definition lower :: "string \<Rightarrow> string" where
  "lower s = map lower_char s"

section \<open>Status checking functions (monitor.py)\<close>

text \<open>
  \<^verbatim>\<open>check_downdetector(page_source)\<close>: an \<^verbatim>\<open>if/elif/elif/else\<close> chain over three
  indicator phrases, returning one of four status strings.
\<close>

definition check_downdetector :: "string \<Rightarrow> string" where
  "check_downdetector page_source =
     (if py_in ''indicate no current problems'' page_source then ''OPERATIONAL''
      else if py_in ''possible problems'' page_source then ''POSSIBLE ISSUES''
      else if py_in ''indicate problems'' page_source then ''OUTAGE DETECTED''
      else ''SUSPICIOUS / UNKNOWN'')"

text \<open>
  \<^verbatim>\<open>check_generic(page_source, good_keywords)\<close>: the \<^verbatim>\<open>for\<close> loop returns at the first
  keyword whose lower-cased form occurs in \<^verbatim>\<open>page_source\<close>; the page source itself is
  used as it was passed in.
\<close>

fun check_generic :: "string \<Rightarrow> string list \<Rightarrow> string" where
  "check_generic page_source [] = ''POTENTIAL OUTAGE''"
| "check_generic page_source (keyword # good_keywords) =
     (if py_in (lower keyword) page_source then ''OPERATIONAL''
      else check_generic page_source good_keywords)"

section \<open>Configuration (config.py)\<close>

text \<open>
  The attributes of class \<^verbatim>\<open>Config\<close>, as \<^verbatim>\<open>__init__\<close> has set them from the
  environment.
\<close>

record config =
  email_sender :: string
  email_password :: string
  email_receivers :: "string list"
  slack_webhook_url :: string
  check_delay :: int
  loop_delay :: int

text \<open>The property \<^verbatim>\<open>slack_enabled\<close>: \<^verbatim>\<open>bool(self.slack_webhook_url)\<close>.\<close>

definition slack_enabled :: "config \<Rightarrow> bool" where
  "slack_enabled c = (slack_webhook_url c \<noteq> [])"

text \<open>
  The exceptions that reach the handler \<^verbatim>\<open>except Exception as e\<close> of the monitoring
  loop: a missing key of the state dictionary, whatever the browser driver raises, and
  whatever leaves \<^verbatim>\<open>send_slack_alert\<close>.
\<close>

datatype exn =
    KeyError string
  | Driver_exception string
  | Slack_exception string

text \<open>
  One constructor for each \<^verbatim>\<open>print\<close> statement of the two modules, holding the values
  the statement interpolates (the fixed wording and the time stamp are left out).
\<close>

datatype log_line =
    Slack_warning
  | Configuration_error "string list"
  | Banner nat nat bool int int
  | Cycle_header
  | Checking string
  | Blocked
  | Unknown_mode string
  | Status string
  | Status_change string string
  | Error exn
  | Waiting int
  | Email_sent nat
  | Email_auth_failed
  | Email_smtp_failed string
  | Email_failed string
  | Slack_sent
  | Slack_error int string
  | Slack_timeout
  | Slack_failed string

text \<open>
  \<^verbatim>\<open>Config.validate\<close>: collects the error strings, prints the Slack warning, and either
  prints the error block and raises \<^verbatim>\<open>SystemExit(1)\<close> (the left injection, holding the
  exit status) or returns \<^verbatim>\<open>True\<close>.
\<close>

definition validate :: "config \<Rightarrow> log_line list \<times> (int + bool)" where
  "validate c =
     (let errors =
            (if email_sender c = [] then [''EMAIL_SENDER is not set''] else []) @
            (if email_password c = [] then [''EMAIL_PASSWORD is not set''] else []) @
            (if email_receivers c = [] then [''EMAIL_RECEIVERS is not set or empty''] else []);
          warning = (if slack_webhook_url c = [] then [Slack_warning] else [])
      in if errors \<noteq> [] then (warning @ [Configuration_error errors], Inl 1)
         else (warning, Inr True))"

text \<open>An entry of \<^verbatim>\<open>TARGETS\<close>; \<^verbatim>\<open>good_keywords\<close> is an optional key of the dictionary.\<close>

record target =
  name :: string
  url :: string
  mode :: string
  good_keywords :: "string list option"

definition TARGETS :: "target list" where
  "TARGETS =
     [\<lparr>name = ''Internet Archive'', url = ''https://downdetector.com/status/internetarchive/'',
       mode = ''downdetector'', good_keywords = None\<rparr>,
      \<lparr>name = ''Roblox'', url = ''https://downdetector.com/status/roblox/'',
       mode = ''downdetector'', good_keywords = None\<rparr>,
      \<lparr>name = ''OpenAI API'', url = ''https://status.openai.com/'',
       mode = ''generic'', good_keywords = Some [''all systems operational'', ''operational'']\<rparr>]"

section \<open>Notification services (monitor.py)\<close>

text \<open>
  What the program does to the outside world is recorded as a list of effects, in the order
  of execution. What the outside world answers is an argument of the model: the outcome of
  the SMTP session, of the HTTP request and of the page fetch.
\<close>

record email_message =
  msg_subject :: string
  msg_from :: string
  msg_to :: string
  msg_body :: string

datatype effect =
    Print log_line
  | Driver_get string
  | Sleep_uniform int int
  | Sleep int
  | Smtp_session string string email_message
  | Http_post string string

text \<open>
  The SMTP session either completes or raises; the three failure constructors are the three
  \<^verbatim>\<open>except\<close> clauses of \<^verbatim>\<open>send_email_alert\<close>, the last of which
  (\<^verbatim>\<open>except Exception\<close>) takes every remaining exception.
\<close>

datatype smtp_outcome =
    Smtp_ok
  | SMTPAuthenticationError
  | SMTPException string
  | Other_exception string

text \<open>
  \<^verbatim>\<open>requests.post\<close> either returns a response (status code and text) or raises:
  \<^verbatim>\<open>Timeout\<close>, another \<^verbatim>\<open>RequestException\<close>, or an exception that is neither (the
  library passes some errors of the layer below on unchanged). \<^verbatim>\<open>send_slack_alert\<close>
  has handlers for the first two only.
\<close>

datatype http_outcome =
    Response int string
  | Timeout
  | RequestException string
  | Unhandled_exception string

definition nl :: string where
  "nl = [CHR 0x0A]"

text \<open>\<^verbatim>\<open>sep.join(xs)\<close>.\<close>

fun join :: "string \<Rightarrow> string list \<Rightarrow> string" where
  "join sep [] = []"
| "join sep [x] = x"
| "join sep (x # y # ys) = x @ sep @ join sep (y # ys)"

text \<open>
  The text of the Slack payload. Its first character, the emoji U+1F6A8, is written as the
  four bytes of its UTF-8 encoding.
\<close>

definition slack_text :: "string \<Rightarrow> string \<Rightarrow> string \<Rightarrow> string" where
  "slack_text site_name status u =
     [CHR 0xF0, CHR 0x9F, CHR 0x9A, CHR 0xA8] @ '' *Monitor Alert: '' @ site_name @ ''*'' @ nl @
     ''*Status:* '' @ status @ nl @ ''<'' @ u @ ''|View Status Page>''"

text \<open>
  \<^verbatim>\<open>send_slack_alert\<close> returns its effects and, if an exception leaves the function,
  that exception. Unlike \<^verbatim>\<open>send_email_alert\<close> it has no handler
  \<^verbatim>\<open>except Exception\<close>, so an exception that is not a \<^verbatim>\<open>RequestException\<close>
  goes on to the caller.
\<close>

definition send_slack_alert ::
  "config \<Rightarrow> string \<Rightarrow> string \<Rightarrow> string \<Rightarrow> http_outcome \<Rightarrow> effect list \<times> exn option"
  where
  "send_slack_alert cfg site_name status u ho =
     (if \<not> slack_enabled cfg then ([], None)
      else
        (case ho of
           Response status_code text \<Rightarrow>
             (Http_post (slack_webhook_url cfg) (slack_text site_name status u) #
              (if status_code = 200 then [Print Slack_sent]
               else [Print (Slack_error status_code text)]), None)
         | Timeout \<Rightarrow>
             ([Http_post (slack_webhook_url cfg) (slack_text site_name status u),
               Print Slack_timeout], None)
         | RequestException e \<Rightarrow>
             ([Http_post (slack_webhook_url cfg) (slack_text site_name status u),
               Print (Slack_failed e)], None)
         | Unhandled_exception e \<Rightarrow>
             ([Http_post (slack_webhook_url cfg) (slack_text site_name status u)],
              Some (Slack_exception e))))"

definition compose_email ::
  "config \<Rightarrow> string \<Rightarrow> string \<Rightarrow> string \<Rightarrow> string \<Rightarrow> email_message" where
  "compose_email cfg site_name status u extra_info =
     \<lparr>msg_subject = ''ALERT: '' @ site_name @ '' is '' @ status,
      msg_from = email_sender cfg,
      msg_to = join '', '' (email_receivers cfg),
      msg_body = ''Monitor Alert!'' @ nl @ nl @
                 ''Site: '' @ site_name @ nl @
                 ''New Status: '' @ status @ nl @
                 ''Link: '' @ u @ nl @ nl @
                 extra_info\<rparr>"

definition send_email_alert ::
  "config \<Rightarrow> string \<Rightarrow> string \<Rightarrow> string \<Rightarrow> string \<Rightarrow> smtp_outcome \<Rightarrow> effect list" where
  "send_email_alert cfg site_name status u extra_info so =
     Smtp_session (email_sender cfg) (email_password cfg)
       (compose_email cfg site_name status u extra_info) #
     (case so of
        Smtp_ok \<Rightarrow> [Print (Email_sent (length (email_receivers cfg)))]
      | SMTPAuthenticationError \<Rightarrow> [Print Email_auth_failed]
      | SMTPException e \<Rightarrow> [Print (Email_smtp_failed e)]
      | Other_exception e \<Rightarrow> [Print (Email_failed e)])"

section \<open>Main monitoring loop (monitor.py)\<close>

text \<open>
  The browser's answer to one visit: \<^verbatim>\<open>driver.get(url)\<close> raises, or
  \<^verbatim>\<open>driver.page_source\<close> raises, or \<^verbatim>\<open>driver.title\<close> raises, or the page source and
  the title are read.
\<close>

datatype fetch_outcome =
    Get_raises string
  | Page_source_raises string
  | Title_raises string
  | Fetched string string

record world =
  fetch :: fetch_outcome
  smtp :: smtp_outcome
  http :: http_outcome

text \<open>
  \<^verbatim>\<open>site_states\<close> is a dictionary from URL to status string, created as
  \<^verbatim>\<open>{target['url']: "initial" for target in TARGETS}\<close>.
\<close>

type_synonym site_states = "string \<rightharpoonup> string"

definition initial_states :: "target list \<Rightarrow> site_states" where
  "initial_states targets = map_of (map (\<lambda>target. (url target, ''initial'')) targets)"

text \<open>
  Lines 346 to 357, the choice of the classifier by \<^verbatim>\<open>mode\<close>: \<open>None\<close> is the
  \<^verbatim>\<open>else\<close> branch (unknown mode), which prints and executes \<^verbatim>\<open>continue\<close>.
  \<^verbatim>\<open>target.get('good_keywords', ['operational'])\<close> supplies the default only when the
  key is absent.
\<close>

definition current_status_of :: "target \<Rightarrow> string \<Rightarrow> string option" where
  "current_status_of t page_source =
     (if mode t = ''downdetector'' then Some (check_downdetector page_source)
      else if mode t = ''generic'' then
        Some (check_generic page_source
                (case good_keywords t of None \<Rightarrow> [''operational''] | Some keywords \<Rightarrow> keywords))
      else None)"

text \<open>
  How the \<^verbatim>\<open>try\<close> block of the loop body (lines 330 to 379) is left: by reaching its end,
  by \<^verbatim>\<open>continue\<close>, or by an exception.
\<close>

datatype ctl = Falls_through | Continue | Raises exn

text \<open>
  Lines 362 to 379: comparison with the stored status, alerts, update of the store. An
  exception that leaves \<^verbatim>\<open>send_slack_alert\<close> (line 376) leaves the \<^verbatim>\<open>try\<close> block
  before the update of the store (line 379).
\<close>

definition detect_change ::
  "config \<Rightarrow> target \<Rightarrow> world \<Rightarrow> string \<Rightarrow> site_states \<Rightarrow> effect list \<times> site_states \<times> ctl" where
  "detect_change cfg t w current_status site_states =
     (case site_states (url t) of
        None \<Rightarrow> ([], site_states, Raises (KeyError (url t)))
      | Some last_status \<Rightarrow>
          if current_status \<noteq> last_status then
            (if last_status \<noteq> ''initial'' then
               (let email = send_email_alert cfg (name t) current_status (url t) [] (smtp w);
                    (slack, raised) =
                      send_slack_alert cfg (name t) current_status (url t) (http w)
                in case raised of
                     Some e \<Rightarrow>
                       (Print (Status_change last_status current_status) # email @ slack,
                        site_states, Raises e)
                   | None \<Rightarrow>
                       (Print (Status_change last_status current_status) # email @ slack,
                        site_states(url t \<mapsto> current_status), Falls_through))
             else ([], site_states(url t \<mapsto> current_status), Falls_through))
          else ([], site_states, Falls_through))"

text \<open>The \<^verbatim>\<open>try\<close> block, lines 330 to 379.\<close>

definition try_block ::
  "config \<Rightarrow> target \<Rightarrow> world \<Rightarrow> site_states \<Rightarrow> effect list \<times> site_states \<times> ctl" where
  "try_block cfg t w site_states =
     (case fetch w of
        Get_raises e \<Rightarrow> ([Driver_get (url t)], site_states, Raises (Driver_exception e))
      | Page_source_raises e \<Rightarrow>
          ([Driver_get (url t), Sleep_uniform 5 8], site_states, Raises (Driver_exception e))
      | Title_raises e \<Rightarrow>
          ([Driver_get (url t), Sleep_uniform 5 8], site_states, Raises (Driver_exception e))
      | Fetched source title \<Rightarrow>
          (let page_source = lower source in
           if py_in ''just a moment'' (lower title) then
             ([Driver_get (url t), Sleep_uniform 5 8, Print Blocked], site_states, Continue)
           else
             (case current_status_of t page_source of
                None \<Rightarrow>
                  ([Driver_get (url t), Sleep_uniform 5 8, Print (Unknown_mode (mode t))],
                   site_states, Continue)
              | Some current_status \<Rightarrow>
                  (let (effs, site_states', c) = detect_change cfg t w current_status site_states
                   in ([Driver_get (url t), Sleep_uniform 5 8, Print (Status current_status)] @ effs,
                       site_states', c)))))"

text \<open>
  The body of \<^verbatim>\<open>for target in TARGETS\<close>, lines 323 to 386. The handler
  \<^verbatim>\<open>except Exception as e\<close> prints the error; the statement after the \<^verbatim>\<open>try\<close>
  statement, \<^verbatim>\<open>time.sleep(config.check_delay)\<close>, runs when the \<^verbatim>\<open>try\<close> statement
  is left at its end or through the handler, and is skipped by \<^verbatim>\<open>continue\<close>, which
  goes to the next target at once.
\<close>

definition loop_body ::
  "config \<Rightarrow> target \<Rightarrow> world \<Rightarrow> site_states \<Rightarrow> effect list \<times> site_states" where
  "loop_body cfg t w site_states =
     (let (effs, site_states', c) = try_block cfg t w site_states in
      case c of
        Falls_through \<Rightarrow>
          (Print (Checking (name t)) # effs @ [Sleep (check_delay cfg)], site_states')
      | Raises e \<Rightarrow>
          (Print (Checking (name t)) # effs @ [Print (Error e), Sleep (check_delay cfg)],
           site_states')
      | Continue \<Rightarrow> (Print (Checking (name t)) # effs, site_states'))"

text \<open>
  The \<^verbatim>\<open>for\<close> loop over the targets; \<open>env i\<close> is what the outside world answers
  during the visit of the target at position \<open>i\<close>.
\<close>

fun for_targets ::
  "config \<Rightarrow> (nat \<Rightarrow> world) \<Rightarrow> nat \<Rightarrow> target list \<Rightarrow> site_states \<Rightarrow> effect list \<times> site_states"
  where
  "for_targets cfg env i [] site_states = ([], site_states)"
| "for_targets cfg env i (t # ts) site_states =
     (let (effs1, site_states1) = loop_body cfg t (env i) site_states;
          (effs2, site_states2) = for_targets cfg env (Suc i) ts site_states1
      in (effs1 @ effs2, site_states2))"

text \<open>One pass of \<^verbatim>\<open>while True\<close>, lines 318 to 390.\<close>

definition cycle ::
  "config \<Rightarrow> (nat \<Rightarrow> world) \<Rightarrow> target list \<Rightarrow> site_states \<Rightarrow> effect list \<times> site_states" where
  "cycle cfg env targets site_states =
     (let (effs, site_states') = for_targets cfg env 0 targets site_states
      in (Print Cycle_header # effs @ [Print (Waiting (loop_delay cfg)), Sleep (loop_delay cfg)],
          site_states'))"

text \<open>
  \<^verbatim>\<open>while True\<close> does not end by itself: the model runs the first \<open>n\<close> passes, starting
  with pass number \<open>k\<close>; \<open>envs k\<close> is the outside world during pass \<open>k\<close>.
\<close>

fun while_true ::
  "config \<Rightarrow> (nat \<Rightarrow> nat \<Rightarrow> world) \<Rightarrow> target list \<Rightarrow> nat \<Rightarrow> nat \<Rightarrow> site_states
     \<Rightarrow> effect list \<times> site_states" where
  "while_true cfg envs targets k 0 site_states = ([], site_states)"
| "while_true cfg envs targets k (Suc n) site_states =
     (let (effs1, site_states1) = cycle cfg (envs k) targets site_states;
          (effs2, site_states2) = while_true cfg envs targets (Suc k) n site_states1
      in (effs1 @ effs2, site_states2))"

text \<open>
  \<^verbatim>\<open>start_monitoring\<close>, up to \<open>n\<close> passes of the loop. \<^verbatim>\<open>config.validate()\<close> is called
  outside every \<^verbatim>\<open>try\<close>, so its \<^verbatim>\<open>SystemExit\<close> ends the process with that status;
  \<^verbatim>\<open>create_browser()\<close> is outside the \<^verbatim>\<open>try\<close> as well (\<open>browser = Some e\<close>: it
  raises \<open>e\<close>). The interruption of the loop by \<^verbatim>\<open>KeyboardInterrupt\<close> and the
  clean-up that follows it are not part of the model.
\<close>

datatype run_state = Exited int | Uncaught string | Running

definition start_monitoring ::
  "config \<Rightarrow> target list \<Rightarrow> string option \<Rightarrow> (nat \<Rightarrow> nat \<Rightarrow> world) \<Rightarrow> nat
     \<Rightarrow> effect list \<times> run_state" where
  "start_monitoring cfg targets browser envs n =
     (case validate cfg of
        (out, Inl status) \<Rightarrow> (map Print out, Exited status)
      | (out, Inr ok) \<Rightarrow>
          (let site_states = initial_states targets;
               banner = Print (Banner (length targets) (length (email_receivers cfg))
                                 (slack_enabled cfg) (check_delay cfg) (loop_delay cfg))
           in case browser of
                Some e \<Rightarrow> (map Print out @ [banner], Uncaught e)
              | None \<Rightarrow>
                  (map Print out @ [banner] @ fst (while_true cfg envs targets 0 n site_states),
                   Running)))"

section \<open>Observations on effect lists\<close>

text \<open>The calls that reach a notification channel: an SMTP session or a webhook request.\<close>

fun is_channel_call :: "effect \<Rightarrow> bool" where
  "is_channel_call (Smtp_session sender password msg) = True"
| "is_channel_call (Http_post webhook text) = True"
| "is_channel_call e = False"

definition channel_calls :: "effect list \<Rightarrow> effect list" where
  "channel_calls effs = filter is_channel_call effs"

text \<open>The URLs passed to \<^verbatim>\<open>driver.get\<close>, in order.\<close>

fun visits :: "effect list \<Rightarrow> string list" where
  "visits [] = []"
| "visits (Driver_get u # effs) = u # visits effs"
| "visits (e # effs) = visits effs"

text \<open>The status changes printed, as pairs of the previous and the new status.\<close>

fun status_changes :: "effect list \<Rightarrow> (string \<times> string) list" where
  "status_changes [] = []"
| "status_changes (Print (Status_change previous new) # effs) =
     (previous, new) # status_changes effs"
| "status_changes (e # effs) = status_changes effs"

section \<open>Example inputs\<close>

definition example_config :: config where
  "example_config =
     \<lparr>email_sender = ''monitor@example.com'', email_password = ''app password'',
      email_receivers = [''ops@example.com'', ''oncall@example.com''],
      slack_webhook_url = ''https://hooks.slack.com/services/T0/B0/X0'',
      check_delay = 10, loop_delay = 60\<rparr>"

definition roblox :: target where
  "roblox =
     \<lparr>name = ''Roblox'', url = ''https://downdetector.com/status/roblox/'',
      mode = ''downdetector'', good_keywords = None\<rparr>"

definition openai :: target where
  "openai =
     \<lparr>name = ''OpenAI API'', url = ''https://status.openai.com/'',
      mode = ''generic'', good_keywords = Some [''all systems operational'', ''operational'']\<rparr>"

text \<open>A page that reports an outage; both channels answer with success.\<close>

definition outage_page :: world where
  "outage_page =
     \<lparr>fetch = Fetched ''<p>User reports indicate problems at Roblox</p>'' ''Roblox down?'',
      smtp = Smtp_ok, http = Response 200 ''ok''\<rparr>"

text \<open>A page that reports no problems.\<close>

definition fine_page :: world where
  "fine_page =
     \<lparr>fetch = Fetched ''<p>User reports indicate no current problems at Roblox</p>''
                ''Roblox down?'',
      smtp = Smtp_ok, http = Response 200 ''ok''\<rparr>"

text \<open>The challenge page of Cloudflare, recognised by its title.\<close>

definition blocked_page :: world where
  "blocked_page =
     \<lparr>fetch = Fetched ''<html>Checking your browser</html>'' ''Just a moment...'',
      smtp = Smtp_ok, http = Response 200 ''ok''\<rparr>"

text \<open>A visit during which \<^verbatim>\<open>driver.get\<close> raises.\<close>

definition unreachable_page :: world where
  "unreachable_page =
     \<lparr>fetch = Get_raises ''net::ERR_NAME_NOT_RESOLVED'', smtp = Smtp_ok,
      http = Response 200 ''ok''\<rparr>"

text \<open>A target whose \<^verbatim>\<open>mode\<close> is neither \<^verbatim>\<open>downdetector\<close> nor \<^verbatim>\<open>generic\<close>.\<close>

definition unknown_mode_target :: target where
  "unknown_mode_target =
     \<lparr>name = ''Billing API'', url = ''https://status.example.com/'',
      mode = ''api'', good_keywords = None\<rparr>"

text \<open>An outage page during a visit in which both channels fail.\<close>

definition failing_channels :: world where
  "failing_channels =
     \<lparr>fetch = Fetched ''<p>User reports indicate problems at Roblox</p>'' ''Roblox down?'',
      smtp = SMTPAuthenticationError, http = Timeout\<rparr>"

text \<open>
  An outage page during a visit in which the e-mail is sent and \<^verbatim>\<open>requests.post\<close>
  raises an exception that is not a \<^verbatim>\<open>RequestException\<close>.
\<close>

definition slack_escapes :: world where
  "slack_escapes =
     \<lparr>fetch = Fetched ''<p>User reports indicate problems at Roblox</p>'' ''Roblox down?'',
      smtp = Smtp_ok, http = Unhandled_exception ''LocationParseError''\<rparr>"

text \<open>A \<^verbatim>\<open>generic\<close> target with the keyword list \<^verbatim>\<open>['operational']\<close>, and two pages.\<close>

definition keyword_target :: target where
  "keyword_target =
     \<lparr>name = ''Status page'', url = ''https://status.example.org/'',
      mode = ''generic'', good_keywords = Some [''operational'']\<rparr>"

definition operational_page :: world where
  "operational_page =
     \<lparr>fetch = Fetched ''All Systems Operational'' ''Status'', smtp = Smtp_ok,
      http = Response 200 ''ok''\<rparr>"

definition partial_outage_page :: world where
  "partial_outage_page =
     \<lparr>fetch = Fetched ''Partial Outage'' ''Status'', smtp = Smtp_ok,
      http = Response 200 ''ok''\<rparr>"

text \<open>Outside worlds for a whole pass and a whole run: every visit gets the same answer.\<close>

definition all_blocked :: "nat \<Rightarrow> world" where
  "all_blocked i = blocked_page"

definition all_fine :: "nat \<Rightarrow> nat \<Rightarrow> world" where
  "all_fine k i = fine_page"

section \<open>Facts about text\<close>

lemma lower_Nil: "lower [] = []"
  by (simp add: lower_def)

lemma py_in_Nil: "py_in [] haystack"
  by (simp add: py_in_def)

lemma py_in_append: "py_in needle (before @ needle @ after)"
  by (simp add: py_in_def)

lemma py_in_append2: "py_in needle (a @ b @ c @ needle @ d)"
  unfolding py_in_def sublist_def
  by (rule exI [of _ "a @ b @ c"], rule exI [of _ d]) simp

section \<open>The classifiers\<close>

text \<open>
  C4. \<^verbatim>\<open>check_downdetector\<close> tests the phrases in a fixed order: the phrase
  \<^verbatim>\<open>indicate no current problems\<close> first (result \<^verbatim>\<open>OPERATIONAL\<close>), then
  \<^verbatim>\<open>possible problems\<close> (\<^verbatim>\<open>POSSIBLE ISSUES\<close>), then \<^verbatim>\<open>indicate problems\<close>
  (\<^verbatim>\<open>OUTAGE DETECTED\<close>), and otherwise the result is \<^verbatim>\<open>SUSPICIOUS / UNKNOWN\<close>.
  Hence every page source that contains the first phrase together with one of the other two
  is \<^verbatim>\<open>OPERATIONAL\<close>, whichever of them comes first in the text.
\<close>

theorem check_downdetector_priority:
  "(py_in ''indicate no current problems'' page_source \<longrightarrow>
      check_downdetector page_source = ''OPERATIONAL'') \<and>
   (\<not> py_in ''indicate no current problems'' page_source \<and>
    py_in ''possible problems'' page_source \<longrightarrow>
      check_downdetector page_source = ''POSSIBLE ISSUES'') \<and>
   (\<not> py_in ''indicate no current problems'' page_source \<and>
    \<not> py_in ''possible problems'' page_source \<and>
    py_in ''indicate problems'' page_source \<longrightarrow>
      check_downdetector page_source = ''OUTAGE DETECTED'') \<and>
   (\<not> py_in ''indicate no current problems'' page_source \<and>
    \<not> py_in ''possible problems'' page_source \<and>
    \<not> py_in ''indicate problems'' page_source \<longrightarrow>
      check_downdetector page_source = ''SUSPICIOUS / UNKNOWN'') \<and>
   (py_in ''indicate no current problems'' page_source \<and>
    (py_in ''indicate problems'' page_source \<or> py_in ''possible problems'' page_source) \<longrightarrow>
      check_downdetector page_source = ''OPERATIONAL'') \<and>
   check_downdetector
     (a @ ''indicate no current problems'' @ b @ ''indicate problems'' @ c) = ''OPERATIONAL'' \<and>
   check_downdetector
     (a @ ''indicate problems'' @ b @ ''indicate no current problems'' @ c) = ''OPERATIONAL''"
proof -
  have first: "py_in ''indicate no current problems''
                 (a @ ''indicate no current problems'' @ b @ ''indicate problems'' @ c)"
    by (rule py_in_append)
  have second: "py_in ''indicate no current problems''
                  (a @ ''indicate problems'' @ b @ ''indicate no current problems'' @ c)"
    by (rule py_in_append2)
  show ?thesis
    using first second by (simp add: check_downdetector_def)
qed

text \<open>
  The cases of C4 at four page sources; the first has \<^verbatim>\<open>indicate problems\<close> before
  \<^verbatim>\<open>indicate no current problems\<close>.
\<close>

theorem check_downdetector_priority_witness:
  "check_downdetector ''users indicate problems. reports indicate no current problems'' = ''OPERATIONAL'' \<and>
   check_downdetector ''reports indicate possible problems'' = ''POSSIBLE ISSUES'' \<and>
   check_downdetector ''reports indicate problems'' = ''OUTAGE DETECTED'' \<and>
   check_downdetector ''just a moment'' = ''SUSPICIOUS / UNKNOWN''"
proof -
  let ?p1 = "''users indicate problems. reports indicate no current problems''"
  let ?p2 = "''reports indicate possible problems''"
  let ?p3 = "''reports indicate problems''"
  let ?p4 = "''just a moment''"
  have h1: "py_in ''indicate no current problems'' ?p1 \<and>
            (py_in ''indicate problems'' ?p1 \<or> py_in ''possible problems'' ?p1)"
    by code_simp
  have h2: "\<not> py_in ''indicate no current problems'' ?p2 \<and> py_in ''possible problems'' ?p2"
    by code_simp
  have h3: "\<not> py_in ''indicate no current problems'' ?p3 \<and> \<not> py_in ''possible problems'' ?p3 \<and>
            py_in ''indicate problems'' ?p3"
    by code_simp
  have h4: "\<not> py_in ''indicate no current problems'' ?p4 \<and> \<not> py_in ''possible problems'' ?p4 \<and>
            \<not> py_in ''indicate problems'' ?p4"
    by code_simp
  note t1 = check_downdetector_priority [of ?p1, THEN conjunct2, THEN conjunct2, THEN conjunct2,
      THEN conjunct2, THEN conjunct1, THEN mp, OF h1]
  note t2 = check_downdetector_priority [of ?p2, THEN conjunct2, THEN conjunct1, THEN mp, OF h2]
  note t3 = check_downdetector_priority [of ?p3, THEN conjunct2, THEN conjunct2, THEN conjunct1,
      THEN mp, OF h3]
  note t4 = check_downdetector_priority [of ?p4, THEN conjunct2, THEN conjunct2, THEN conjunct2,
      THEN conjunct1, THEN mp, OF h4]
  show ?thesis
    by (intro conjI) (rule t1, rule t2, rule t3, rule t4)
qed

text \<open>
  C6, as stated, fails: \<^verbatim>\<open>check_generic\<close> has no error result, and on an empty keyword
  list its loop body never runs, so the result is \<^verbatim>\<open>POTENTIAL OUTAGE\<close> even for a page
  that says \<^verbatim>\<open>all systems operational\<close>.
\<close>

theorem check_generic_no_keywords_counterexample:
  "check_generic ''all systems operational'' [] = ''POTENTIAL OUTAGE''"
  by simp

text \<open>
  C6, amended. With an empty keyword list \<^verbatim>\<open>check_generic\<close> returns
  \<^verbatim>\<open>POTENTIAL OUTAGE\<close> for every page source, and so does the monitoring loop's choice of
  status for a \<^verbatim>\<open>generic\<close> target whose \<^verbatim>\<open>good_keywords\<close> is the empty list: the
  default \<^verbatim>\<open>['operational']\<close> replaces an absent key only.
\<close>

theorem check_generic_no_keywords:
  "check_generic page_source [] = ''POTENTIAL OUTAGE'' \<and>
   current_status_of \<lparr>name = n, url = u, mode = ''generic'', good_keywords = Some []\<rparr> page_source =
     Some ''POTENTIAL OUTAGE''"
  by (simp add: current_status_of_def)

text \<open>
  C10. If the keyword list contains the empty string, \<^verbatim>\<open>check_generic\<close> returns
  \<^verbatim>\<open>OPERATIONAL\<close> for every page source, the empty one included: the empty string
  lower-cased is empty, and it occurs in every string.
\<close>

theorem check_generic_blank_keyword:
  "'''' \<in> set kws \<Longrightarrow> check_generic page_source kws = ''OPERATIONAL''"
  by (induction kws) (auto simp: lower_Nil py_in_Nil)

text \<open>C10 at the empty page source, the empty string being the last keyword.\<close>

theorem check_generic_blank_keyword_witness:
  "check_generic '''' [''operational'', ''''] = ''OPERATIONAL''"
proof -
  have h: "'''' \<in> set [''operational'', '''']" by simp
  show ?thesis by (rule check_generic_blank_keyword [OF h])
qed

section \<open>The loop body, case by case\<close>

text \<open>
  The classifiers never return the sentinel \<^verbatim>\<open>initial\<close>: a stored status is
  \<^verbatim>\<open>initial\<close> exactly as long as the target has not been classified.
\<close>

lemma current_status_not_initial:
  "current_status_of t page_source = Some s \<Longrightarrow> s \<noteq> ''initial''"
proof -
  have g: "check_generic page_source kws \<noteq> ''initial''" for kws
    by (induction kws) auto
  assume "current_status_of t page_source = Some s"
  then show ?thesis
    using g by (auto simp: current_status_of_def check_downdetector_def split: if_splits)
qed

lemma loop_body_classified:
  assumes "fetch w = Fetched source title"
    and "\<not> py_in ''just a moment'' (lower title)"
    and "current_status_of t (lower source) = Some current"
    and "site_states (url t) = Some previous"
  shows "loop_body cfg t w site_states =
           (if current = previous then
              ([Print (Checking (name t)), Driver_get (url t), Sleep_uniform 5 8,
                Print (Status current), Sleep (check_delay cfg)], site_states)
            else if previous = ''initial'' then
              ([Print (Checking (name t)), Driver_get (url t), Sleep_uniform 5 8,
                Print (Status current), Sleep (check_delay cfg)],
               site_states(url t \<mapsto> current))
            else
              (case snd (send_slack_alert cfg (name t) current (url t) (http w)) of
                 None \<Rightarrow>
                   ([Print (Checking (name t)), Driver_get (url t), Sleep_uniform 5 8,
                     Print (Status current), Print (Status_change previous current)] @
                    send_email_alert cfg (name t) current (url t) [] (smtp w) @
                    fst (send_slack_alert cfg (name t) current (url t) (http w)) @
                    [Sleep (check_delay cfg)],
                    site_states(url t \<mapsto> current))
               | Some e \<Rightarrow>
                   ([Print (Checking (name t)), Driver_get (url t), Sleep_uniform 5 8,
                     Print (Status current), Print (Status_change previous current)] @
                    send_email_alert cfg (name t) current (url t) [] (smtp w) @
                    fst (send_slack_alert cfg (name t) current (url t) (http w)) @
                    [Print (Error e), Sleep (check_delay cfg)],
                    site_states)))"
  using assms
  by (simp add: loop_body_def try_block_def detect_change_def split_def Let_def
      split: option.splits)

lemma loop_body_missing_key:
  assumes "fetch w = Fetched source title"
    and "\<not> py_in ''just a moment'' (lower title)"
    and "current_status_of t (lower source) = Some current"
    and "site_states (url t) = None"
  shows "loop_body cfg t w site_states =
           ([Print (Checking (name t)), Driver_get (url t), Sleep_uniform 5 8,
             Print (Status current), Print (Error (KeyError (url t))),
             Sleep (check_delay cfg)], site_states)"
  using assms by (simp add: loop_body_def try_block_def detect_change_def)

lemma loop_body_blocked:
  assumes "fetch w = Fetched source title" and "py_in ''just a moment'' (lower title)"
  shows "loop_body cfg t w site_states =
           ([Print (Checking (name t)), Driver_get (url t), Sleep_uniform 5 8, Print Blocked],
            site_states)"
  using assms by (simp add: loop_body_def try_block_def)

lemma loop_body_unknown_mode:
  assumes "fetch w = Fetched source title"
    and "\<not> py_in ''just a moment'' (lower title)"
    and "current_status_of t (lower source) = None"
  shows "loop_body cfg t w site_states =
           ([Print (Checking (name t)), Driver_get (url t), Sleep_uniform 5 8,
             Print (Unknown_mode (mode t))], site_states)"
  using assms by (simp add: loop_body_def try_block_def)

lemma loop_body_get_raises:
  assumes "fetch w = Get_raises e"
  shows "loop_body cfg t w site_states =
           ([Print (Checking (name t)), Driver_get (url t),
             Print (Error (Driver_exception e)), Sleep (check_delay cfg)], site_states)"
  using assms by (simp add: loop_body_def try_block_def)

lemma loop_body_read_raises:
  assumes "fetch w = Page_source_raises e \<or> fetch w = Title_raises e"
  shows "loop_body cfg t w site_states =
           ([Print (Checking (name t)), Driver_get (url t), Sleep_uniform 5 8,
             Print (Error (Driver_exception e)), Sleep (check_delay cfg)], site_states)"
  using assms by (auto simp add: loop_body_def try_block_def)

lemma channel_calls_append: "channel_calls (xs @ ys) = channel_calls xs @ channel_calls ys"
  by (simp add: channel_calls_def)

lemma channel_calls_email:
  "channel_calls (send_email_alert cfg site_name status u extra so) =
     [Smtp_session (email_sender cfg) (email_password cfg)
        (compose_email cfg site_name status u extra)]"
  by (cases so) (simp_all add: channel_calls_def send_email_alert_def)

lemma channel_calls_slack:
  "channel_calls (fst (send_slack_alert cfg site_name status u ho)) =
     (if slack_enabled cfg then [Http_post (slack_webhook_url cfg) (slack_text site_name status u)]
      else [])"
  by (cases ho) (simp_all add: channel_calls_def send_slack_alert_def)

lemma channel_calls_loop_body:
  "channel_calls (fst (loop_body cfg t w site_states)) =
     (case fetch w of
        Fetched source title \<Rightarrow>
          if py_in ''just a moment'' (lower title) then []
          else (case current_status_of t (lower source) of
                  None \<Rightarrow> []
                | Some current \<Rightarrow>
                    (case site_states (url t) of
                       None \<Rightarrow> []
                     | Some previous \<Rightarrow>
                         if current \<noteq> previous \<and> previous \<noteq> ''initial'' then
                           Smtp_session (email_sender cfg) (email_password cfg)
                             (compose_email cfg (name t) current (url t) []) #
                           (if slack_enabled cfg then
                              [Http_post (slack_webhook_url cfg)
                                 (slack_text (name t) current (url t))]
                            else [])
                         else []))
      | _ \<Rightarrow> [])"
proof (cases "fetch w")
  case (Fetched source title)
  show ?thesis
  proof (cases "py_in ''just a moment'' (lower title)")
    case True
    with Fetched show ?thesis
      by (simp add: loop_body_blocked channel_calls_def)
  next
    case unblocked: False
    show ?thesis
    proof (cases "current_status_of t (lower source)")
      case None
      with Fetched unblocked show ?thesis
        by (simp add: loop_body_unknown_mode channel_calls_def)
    next
      case (Some current)
      show ?thesis
      proof (cases "site_states (url t)")
        case None
        with Fetched unblocked Some show ?thesis
          by (simp add: loop_body_missing_key channel_calls_def)
      next
        case stored: (Some previous)
        with Fetched unblocked Some show ?thesis
          by (simp add: loop_body_classified channel_calls_def
              channel_calls_email [unfolded channel_calls_def]
              channel_calls_slack [unfolded channel_calls_def] split: option.splits)
      qed
    qed
  qed
qed (simp_all add: loop_body_get_raises loop_body_read_raises channel_calls_def)

section \<open>The keyword classifier in the loop\<close>

text \<open>
  C9. The monitoring loop lower-cases the page source before it calls
  \<^verbatim>\<open>check_generic\<close>, and \<^verbatim>\<open>check_generic\<close> lower-cases each keyword, so the match
  is case-insensitive. The page \<^verbatim>\<open>All Systems Operational\<close> with the keyword list
  \<^verbatim>\<open>['operational']\<close> is classified \<^verbatim>\<open>OPERATIONAL\<close>, and the page
  \<^verbatim>\<open>Partial Outage\<close> with the same list \<^verbatim>\<open>POTENTIAL OUTAGE\<close>: by the classifier on
  the lower-cased text, by the choice of status for a \<^verbatim>\<open>generic\<close> target, and by the
  loop body, which prints that status.
\<close>

theorem keyword_classifier_examples:
  "lower ''All Systems Operational'' = ''all systems operational'' \<and>
   check_generic (lower ''All Systems Operational'') [''operational''] = ''OPERATIONAL'' \<and>
   check_generic (lower ''Partial Outage'') [''operational''] = ''POTENTIAL OUTAGE'' \<and>
   check_generic (lower ''All Systems Operational'') [''Operational''] = ''OPERATIONAL'' \<and>
   current_status_of keyword_target (lower ''All Systems Operational'') = Some ''OPERATIONAL'' \<and>
   current_status_of keyword_target (lower ''Partial Outage'') = Some ''POTENTIAL OUTAGE'' \<and>
   fst (loop_body example_config keyword_target operational_page
          (initial_states [keyword_target])) =
     [Print (Checking ''Status page''), Driver_get ''https://status.example.org/'',
      Sleep_uniform 5 8, Print (Status ''OPERATIONAL''), Sleep 10] \<and>
   fst (loop_body example_config keyword_target partial_outage_page
          (initial_states [keyword_target])) =
     [Print (Checking ''Status page''), Driver_get ''https://status.example.org/'',
      Sleep_uniform 5 8, Print (Status ''POTENTIAL OUTAGE''), Sleep 10]"
proof -
  have l: "lower ''All Systems Operational'' = ''all systems operational''"
    by code_simp
  have g: "check_generic (lower ''All Systems Operational'') [''operational''] = ''OPERATIONAL''"
    "check_generic (lower ''Partial Outage'') [''operational''] = ''POTENTIAL OUTAGE''"
    "check_generic (lower ''All Systems Operational'') [''Operational''] = ''OPERATIONAL''"
    by code_simp+
  have c: "current_status_of keyword_target (lower ''All Systems Operational'') =
             Some ''OPERATIONAL''"
    "current_status_of keyword_target (lower ''Partial Outage'') = Some ''POTENTIAL OUTAGE''"
    using g by (simp_all add: current_status_of_def keyword_target_def)
  have b: "\<not> py_in ''just a moment'' (lower ''Status'')"
    by code_simp
  have s: "initial_states [keyword_target] (url keyword_target) = Some ''initial''"
    by (simp add: initial_states_def)
  have e: "name keyword_target = ''Status page''"
    "url keyword_target = ''https://status.example.org/''"
    "check_delay example_config = 10"
    by (simp_all add: keyword_target_def example_config_def)
  have p1: "fst (loop_body example_config keyword_target operational_page
          (initial_states [keyword_target])) =
     [Print (Checking ''Status page''), Driver_get ''https://status.example.org/'',
      Sleep_uniform 5 8, Print (Status ''OPERATIONAL''), Sleep 10]"
    using loop_body_classified [of operational_page "''All Systems Operational''" "''Status''"
        keyword_target "''OPERATIONAL''" "initial_states [keyword_target]" "''initial''"
        example_config] b c(1) s
    by (simp add: operational_page_def e)
  have p2: "fst (loop_body example_config keyword_target partial_outage_page
          (initial_states [keyword_target])) =
     [Print (Checking ''Status page''), Driver_get ''https://status.example.org/'',
      Sleep_uniform 5 8, Print (Status ''POTENTIAL OUTAGE''), Sleep 10]"
    using loop_body_classified [of partial_outage_page "''Partial Outage''" "''Status''"
        keyword_target "''POTENTIAL OUTAGE''" "initial_states [keyword_target]" "''initial''"
        example_config] b c(2) s
    by (simp add: partial_outage_page_def e)
  show ?thesis
    by (intro conjI) (rule l, rule g(1), rule g(2), rule g(3), rule c(1), rule c(2), rule p1,
        rule p2)
qed

section \<open>The store and the loops, step by step\<close>

text \<open>
  The store after the loop body, and the loops unfolded by one step. The key set of the
  store never changes: it is the set of URLs of the targets from start to end.
\<close>

lemma snd_loop_body:
  "snd (loop_body cfg t w site_states) =
     (case fetch w of
        Fetched source title \<Rightarrow>
          if py_in ''just a moment'' (lower title) then site_states
          else (case current_status_of t (lower source) of
                  None \<Rightarrow> site_states
                | Some current \<Rightarrow>
                    (case site_states (url t) of
                       None \<Rightarrow> site_states
                     | Some previous \<Rightarrow>
                         if current = previous then site_states
                         else if previous = ''initial'' then site_states(url t \<mapsto> current)
                         else (case snd (send_slack_alert cfg (name t) current (url t)
                                           (http w)) of
                                 None \<Rightarrow> site_states(url t \<mapsto> current)
                               | Some e \<Rightarrow> site_states)))
      | _ \<Rightarrow> site_states)"
proof (cases "fetch w")
  case (Fetched source title)
  show ?thesis
  proof (cases "py_in ''just a moment'' (lower title)")
    case True
    with Fetched show ?thesis
      by (simp add: loop_body_blocked)
  next
    case unblocked: False
    show ?thesis
    proof (cases "current_status_of t (lower source)")
      case None
      with Fetched unblocked show ?thesis
        by (simp add: loop_body_unknown_mode)
    next
      case (Some current)
      show ?thesis
      proof (cases "site_states (url t)")
        case None
        with Fetched unblocked Some show ?thesis
          by (simp add: loop_body_missing_key)
      next
        case stored: (Some previous)
        with Fetched unblocked Some show ?thesis
          by (simp add: loop_body_classified split: option.splits)
      qed
    qed
  qed
qed (simp_all add: loop_body_get_raises loop_body_read_raises)

lemma dom_initial_states: "dom (initial_states targets) = url ` set targets"
  by (simp add: initial_states_def dom_map_of_conv_image_fst image_image)

lemma dom_loop_body: "dom (snd (loop_body cfg t w site_states)) = dom site_states"
  by (auto simp add: snd_loop_body split: fetch_outcome.splits option.splits if_splits)

lemma for_targets_Cons:
  "fst (for_targets cfg env i (t # ts) site_states) =
     fst (loop_body cfg t (env i) site_states) @
     fst (for_targets cfg env (Suc i) ts (snd (loop_body cfg t (env i) site_states)))"
  "snd (for_targets cfg env i (t # ts) site_states) =
     snd (for_targets cfg env (Suc i) ts (snd (loop_body cfg t (env i) site_states)))"
  by (simp_all add: split_def Let_def)

lemma cycle_parts:
  "fst (cycle cfg env targets site_states) =
     Print Cycle_header # fst (for_targets cfg env 0 targets site_states) @
     [Print (Waiting (loop_delay cfg)), Sleep (loop_delay cfg)]"
  "snd (cycle cfg env targets site_states) = snd (for_targets cfg env 0 targets site_states)"
  by (simp_all add: cycle_def split_def Let_def)

lemma while_true_Suc:
  "fst (while_true cfg envs targets k (Suc n) site_states) =
     fst (cycle cfg (envs k) targets site_states) @
     fst (while_true cfg envs targets (Suc k) n (snd (cycle cfg (envs k) targets site_states)))"
  "snd (while_true cfg envs targets k (Suc n) site_states) =
     snd (while_true cfg envs targets (Suc k) n (snd (cycle cfg (envs k) targets site_states)))"
  by (simp_all add: split_def Let_def)

lemma dom_for_targets: "dom (snd (for_targets cfg env i ts site_states)) = dom site_states"
  by (induction ts arbitrary: i site_states) (simp_all add: for_targets_Cons dom_loop_body del: for_targets.simps(2))

lemma dom_cycle: "dom (snd (cycle cfg env targets site_states)) = dom site_states"
  by (simp add: cycle_parts dom_for_targets)

lemma dom_while_true: "dom (snd (while_true cfg envs targets k n site_states)) = dom site_states"
  by (induction n arbitrary: k site_states) (simp_all add: while_true_Suc dom_cycle del: while_true.simps(2))

text \<open>
  The first pass after start-up calls no channel, provided the URLs of the targets are
  distinct: each target still has the stored status \<^verbatim>\<open>initial\<close> when it is visited.
\<close>

lemma initial_states_target:
  "t \<in> set targets \<Longrightarrow> initial_states targets (url t) = Some ''initial''"
  by (induction targets) (auto simp add: initial_states_def)

lemma first_pass_for_targets:
  "(\<forall>t \<in> set ts. site_states (url t) = Some ''initial'') \<Longrightarrow> distinct (map url ts) \<Longrightarrow>
     channel_calls (fst (for_targets cfg env i ts site_states)) = []"
proof (induction ts arbitrary: i site_states)
  case Nil
  show ?case by (simp add: channel_calls_def)
next
  case (Cons t ts)
  let ?s = "snd (loop_body cfg t (env i) site_states)"
  have here: "channel_calls (fst (loop_body cfg t (env i) site_states)) = []"
    using Cons.prems(1)
    by (simp add: channel_calls_loop_body split: fetch_outcome.splits option.splits)
  have "?s (url t') = Some ''initial''" if "t' \<in> set ts" for t'
  proof -
    from Cons.prems(2) have "url t \<notin> url ` set ts" by simp
    with that have "url t' \<noteq> url t" by (metis imageI)
    then have "?s (url t') = site_states (url t')"
      by (simp add: snd_loop_body split: fetch_outcome.splits option.splits)
    with that Cons.prems(1) show ?thesis by simp
  qed
  moreover from Cons.prems(2) have "distinct (map url ts)" by simp
  ultimately have "channel_calls (fst (for_targets cfg env (Suc i) ts ?s)) = []"
    using Cons.IH by blast
  with here show ?case
    by (simp add: for_targets_Cons channel_calls_append del: for_targets.simps(2))
qed

lemma first_pass_silent:
  "distinct (map url targets) \<Longrightarrow>
     channel_calls (fst (cycle cfg env targets (initial_states targets))) = []"
  using first_pass_for_targets [of targets "initial_states targets" cfg env 0]
  by (simp add: cycle_parts channel_calls_append initial_states_target)
     (simp add: channel_calls_def)

section \<open>Change detection and notification\<close>

text \<open>
  C1. In the loop body, a target whose stored status is the sentinel \<^verbatim>\<open>initial\<close> never
  causes a call of a notification channel, whatever the page says; a classification equal to
  the stored status causes none either; and a channel is called only if the page was fetched
  and classified and the stored status is neither \<^verbatim>\<open>initial\<close> nor the new status.
  Hence the first pass after start-up over targets of distinct URLs calls no channel at all.
\<close>

theorem no_alert_on_first_or_same_status:
  "(site_states (url t) = Some ''initial'' \<longrightarrow>
      channel_calls (fst (loop_body cfg t w site_states)) = []) \<and>
   (fetch w = Fetched source title \<and> \<not> py_in ''just a moment'' (lower title) \<and>
    current_status_of t (lower source) = Some s \<and> site_states (url t) = Some s \<longrightarrow>
      channel_calls (fst (loop_body cfg t w site_states)) = []) \<and>
   (channel_calls (fst (loop_body cfg t w site_states)) \<noteq> [] \<longrightarrow>
      (\<exists>src ttl current previous.
         fetch w = Fetched src ttl \<and> \<not> py_in ''just a moment'' (lower ttl) \<and>
         current_status_of t (lower src) = Some current \<and>
         site_states (url t) = Some previous \<and> previous \<noteq> ''initial'' \<and> previous \<noteq> current)) \<and>
   (distinct (map url targets) \<longrightarrow>
      channel_calls (fst (cycle cfg env targets (initial_states targets))) = [])"
  by (auto simp add: channel_calls_loop_body first_pass_silent
      split: fetch_outcome.splits option.splits if_splits)

text \<open>
  C1 at the Roblox target and a page that reports an outage: stored \<^verbatim>\<open>initial\<close> (no
  call), stored \<^verbatim>\<open>OUTAGE DETECTED\<close> (no call), stored \<^verbatim>\<open>OPERATIONAL\<close> (calls);
  and at the first pass over \<^verbatim>\<open>TARGETS\<close>.
\<close>

theorem no_alert_on_first_or_same_status_witness:
  "channel_calls (fst (loop_body example_config roblox outage_page (initial_states TARGETS))) = [] \<and>
   channel_calls (fst (loop_body example_config roblox outage_page
                         (map_of [(url roblox, ''OUTAGE DETECTED'')]))) = [] \<and>
   (\<exists>src ttl current previous.
      fetch outage_page = Fetched src ttl \<and> \<not> py_in ''just a moment'' (lower ttl) \<and>
      current_status_of roblox (lower src) = Some current \<and>
      map_of [(url roblox, ''OPERATIONAL'')] (url roblox) = Some previous \<and>
      previous \<noteq> ''initial'' \<and> previous \<noteq> current) \<and>
   channel_calls (fst (cycle example_config (all_fine 0) TARGETS (initial_states TARGETS))) = []"
proof -
  let ?src = "''<p>User reports indicate problems at Roblox</p>''"
  have h1: "initial_states TARGETS (url roblox) = Some ''initial''"
    by (simp add: initial_states_def TARGETS_def roblox_def)
  have f: "fetch outage_page = Fetched ?src ''Roblox down?''"
    by (simp add: outage_page_def)
  have b: "\<not> py_in ''just a moment'' (lower ''Roblox down?'')"
    by code_simp
  have c: "current_status_of roblox (lower ?src) = Some ''OUTAGE DETECTED''"
    by code_simp
  have h2: "fetch outage_page = Fetched ?src ''Roblox down?'' \<and>
            \<not> py_in ''just a moment'' (lower ''Roblox down?'') \<and>
            current_status_of roblox (lower ?src) = Some ''OUTAGE DETECTED'' \<and>
            map_of [(url roblox, ''OUTAGE DETECTED'')] (url roblox) = Some ''OUTAGE DETECTED''"
    using f b c by simp
  have h3: "channel_calls (fst (loop_body example_config roblox outage_page
                                  (map_of [(url roblox, ''OPERATIONAL'')]))) \<noteq> []"
    using f b c by (simp add: channel_calls_loop_body)
  note t1 = no_alert_on_first_or_same_status [where site_states = "initial_states TARGETS"
      and t = roblox and cfg = example_config and w = outage_page,
      THEN conjunct1, THEN mp, OF h1]
  note t2 = no_alert_on_first_or_same_status [where
      site_states = "map_of [(url roblox, ''OUTAGE DETECTED'')]" and t = roblox
      and cfg = example_config and w = outage_page and source = ?src
      and title = "''Roblox down?''" and s = "''OUTAGE DETECTED''",
      THEN conjunct2, THEN conjunct1, THEN mp, OF h2]
  note t3 = no_alert_on_first_or_same_status [where
      site_states = "map_of [(url roblox, ''OPERATIONAL'')]" and t = roblox
      and cfg = example_config and w = outage_page,
      THEN conjunct2, THEN conjunct2, THEN conjunct1, THEN mp, OF h3]
  have h4: "distinct (map url TARGETS)"
    by (simp add: TARGETS_def)
  note t4 = no_alert_on_first_or_same_status [where targets = TARGETS
      and cfg = example_config and env = "all_fine 0",
      THEN conjunct2, THEN conjunct2, THEN conjunct2, THEN mp, OF h4]
  show ?thesis
    by (intro conjI) (rule t1, rule t2, rule t3, rule t4)
qed

text \<open>The alert functions print no status change.\<close>

lemma status_changes_email:
  "status_changes (send_email_alert cfg site_name status u extra so) = []"
  by (cases so) (simp_all add: send_email_alert_def)

lemma status_changes_slack:
  "status_changes (fst (send_slack_alert cfg site_name status u ho)) = []"
  by (cases ho) (simp_all add: send_slack_alert_def)

lemma status_changes_append:
  "status_changes (xs @ ys) = status_changes xs @ status_changes ys"
  by (induction xs rule: status_changes.induct) simp_all

text \<open>
  C2, as stated, fails: what reaches the channels does not carry the previous status.
  \<^verbatim>\<open>send_email_alert\<close> and \<^verbatim>\<open>send_slack_alert\<close> receive the name, the new
  status and the URL only, so a change from \<^verbatim>\<open>OPERATIONAL\<close> and a change from
  \<^verbatim>\<open>POSSIBLE ISSUES\<close> to \<^verbatim>\<open>OUTAGE DETECTED\<close> produce the same e-mail and the
  same Slack request, shown here in full.
\<close>

theorem alert_lacks_previous_status_counterexample:
  "channel_calls (fst (loop_body example_config roblox outage_page
                         (map_of [(url roblox, ''OPERATIONAL'')]))) =
   channel_calls (fst (loop_body example_config roblox outage_page
                         (map_of [(url roblox, ''POSSIBLE ISSUES'')]))) \<and>
   channel_calls (fst (loop_body example_config roblox outage_page
                         (map_of [(url roblox, ''OPERATIONAL'')]))) =
     [Smtp_session ''monitor@example.com'' ''app password''
        \<lparr>msg_subject = ''ALERT: Roblox is OUTAGE DETECTED'',
         msg_from = ''monitor@example.com'',
         msg_to = ''ops@example.com, oncall@example.com'',
         msg_body = ''Monitor Alert!'' @ nl @ nl @ ''Site: Roblox'' @ nl @
                    ''New Status: OUTAGE DETECTED'' @ nl @
                    ''Link: https://downdetector.com/status/roblox/'' @ nl @ nl\<rparr>,
      Http_post ''https://hooks.slack.com/services/T0/B0/X0''
        ([CHR 0xF0, CHR 0x9F, CHR 0x9A, CHR 0xA8] @ '' *Monitor Alert: Roblox*'' @ nl @
         ''*Status:* OUTAGE DETECTED'' @ nl @
         ''<https://downdetector.com/status/roblox/|View Status Page>'')]"
proof -
  let ?src = "''<p>User reports indicate problems at Roblox</p>''"
  have f: "fetch outage_page = Fetched ?src ''Roblox down?''"
    by (simp add: outage_page_def)
  have b: "\<not> py_in ''just a moment'' (lower ''Roblox down?'')"
    by code_simp
  have c: "current_status_of roblox (lower ?src) = Some ''OUTAGE DETECTED''"
    by code_simp
  show ?thesis
    using f b c
    by (simp add: channel_calls_loop_body)
       (simp add: example_config_def roblox_def slack_enabled_def compose_email_def
          slack_text_def)
qed

text \<open>
  C2, amended. When a target is classified and its stored status is neither
  \<^verbatim>\<open>initial\<close> nor the new status, the loop body prints exactly one status change,
  holding the previous and the new status, and calls each channel once: one SMTP session
  and, if Slack is enabled, one webhook request. The e-mail and the Slack text hold the
  target's name, the new status and the URL.
\<close>

theorem status_change_alert:
  "fetch w = Fetched source title \<and> \<not> py_in ''just a moment'' (lower title) \<and>
   current_status_of t (lower source) = Some current \<and>
   site_states (url t) = Some previous \<and> previous \<noteq> ''initial'' \<and> previous \<noteq> current \<longrightarrow>
     status_changes (fst (loop_body cfg t w site_states)) = [(previous, current)] \<and>
     channel_calls (fst (loop_body cfg t w site_states)) =
       Smtp_session (email_sender cfg) (email_password cfg)
         (compose_email cfg (name t) current (url t) []) #
       (if slack_enabled cfg then
          [Http_post (slack_webhook_url cfg) (slack_text (name t) current (url t))]
        else []) \<and>
     msg_subject (compose_email cfg (name t) current (url t) []) =
       ''ALERT: '' @ name t @ '' is '' @ current \<and>
     py_in (name t) (msg_body (compose_email cfg (name t) current (url t) [])) \<and>
     py_in current (msg_body (compose_email cfg (name t) current (url t) [])) \<and>
     py_in (url t) (msg_body (compose_email cfg (name t) current (url t) [])) \<and>
     py_in (name t) (slack_text (name t) current (url t)) \<and>
     py_in current (slack_text (name t) current (url t)) \<and>
     py_in (url t) (slack_text (name t) current (url t))"
proof (intro impI, elim conjE)
  assume a: "fetch w = Fetched source title" "\<not> py_in ''just a moment'' (lower title)"
    "current_status_of t (lower source) = Some current"
    "site_states (url t) = Some previous" "previous \<noteq> ''initial''" "previous \<noteq> current"
  have changes: "status_changes (fst (loop_body cfg t w site_states)) = [(previous, current)]"
    using a by (simp add: loop_body_classified status_changes_append status_changes_email
        status_changes_slack split: option.splits)
  have calls: "channel_calls (fst (loop_body cfg t w site_states)) =
       Smtp_session (email_sender cfg) (email_password cfg)
         (compose_email cfg (name t) current (url t) []) #
       (if slack_enabled cfg then
          [Http_post (slack_webhook_url cfg) (slack_text (name t) current (url t))]
        else [])"
    using a by (simp add: channel_calls_loop_body)
  have subject: "msg_subject (compose_email cfg (name t) current (url t) []) =
       ''ALERT: '' @ name t @ '' is '' @ current"
    by (simp add: compose_email_def)
  have body: "py_in x (msg_body (compose_email cfg (name t) current (url t) []))"
    if "x = name t \<or> x = current \<or> x = url t" for x
  proof -
    have 1: "py_in (name t) (msg_body (compose_email cfg (name t) current (url t) []))"
      unfolding compose_email_def email_message.simps py_in_def sublist_def
      by (rule exI [of _ "''Monitor Alert!'' @ nl @ nl @ ''Site: ''"],
          rule exI [of _ "nl @ ''New Status: '' @ current @ nl @ ''Link: '' @ url t @ nl @ nl @ []"])
        simp
    have 2: "py_in current (msg_body (compose_email cfg (name t) current (url t) []))"
      unfolding compose_email_def email_message.simps py_in_def sublist_def
      by (rule exI [of _ "''Monitor Alert!'' @ nl @ nl @ ''Site: '' @ name t @ nl @
            ''New Status: ''"], rule exI [of _ "nl @ ''Link: '' @ url t @ nl @ nl @ []"]) simp
    have 3: "py_in (url t) (msg_body (compose_email cfg (name t) current (url t) []))"
      unfolding compose_email_def email_message.simps py_in_def sublist_def
      by (rule exI [of _ "''Monitor Alert!'' @ nl @ nl @ ''Site: '' @ name t @ nl @
            ''New Status: '' @ current @ nl @ ''Link: ''"], rule exI [of _ "nl @ nl @ []"]) simp
    from that 1 2 3 show ?thesis by blast
  qed
  have slack: "py_in x (slack_text (name t) current (url t))"
    if "x = name t \<or> x = current \<or> x = url t" for x
  proof -
    have 1: "py_in (name t) (slack_text (name t) current (url t))"
      unfolding slack_text_def py_in_def sublist_def
      by (rule exI [of _ "[CHR 0xF0, CHR 0x9F, CHR 0x9A, CHR 0xA8] @ '' *Monitor Alert: ''"],
          rule exI [of _ "''*'' @ nl @ ''*Status:* '' @ current @ nl @ ''<'' @ url t @
            ''|View Status Page>''"]) simp
    have 2: "py_in current (slack_text (name t) current (url t))"
      unfolding slack_text_def py_in_def sublist_def
      by (rule exI [of _ "[CHR 0xF0, CHR 0x9F, CHR 0x9A, CHR 0xA8] @ '' *Monitor Alert: '' @
            name t @ ''*'' @ nl @ ''*Status:* ''"],
          rule exI [of _ "nl @ ''<'' @ url t @ ''|View Status Page>''"]) simp
    have 3: "py_in (url t) (slack_text (name t) current (url t))"
      unfolding slack_text_def py_in_def sublist_def
      by (rule exI [of _ "[CHR 0xF0, CHR 0x9F, CHR 0x9A, CHR 0xA8] @ '' *Monitor Alert: '' @
            name t @ ''*'' @ nl @ ''*Status:* '' @ current @ nl @ ''<''"],
          rule exI [of _ "''|View Status Page>''"]) simp
    from that 1 2 3 show ?thesis by blast
  qed
  show "status_changes (fst (loop_body cfg t w site_states)) = [(previous, current)] \<and>
     channel_calls (fst (loop_body cfg t w site_states)) =
       Smtp_session (email_sender cfg) (email_password cfg)
         (compose_email cfg (name t) current (url t) []) #
       (if slack_enabled cfg then
          [Http_post (slack_webhook_url cfg) (slack_text (name t) current (url t))]
        else []) \<and>
     msg_subject (compose_email cfg (name t) current (url t) []) =
       ''ALERT: '' @ name t @ '' is '' @ current \<and>
     py_in (name t) (msg_body (compose_email cfg (name t) current (url t) [])) \<and>
     py_in current (msg_body (compose_email cfg (name t) current (url t) [])) \<and>
     py_in (url t) (msg_body (compose_email cfg (name t) current (url t) [])) \<and>
     py_in (name t) (slack_text (name t) current (url t)) \<and>
     py_in current (slack_text (name t) current (url t)) \<and>
     py_in (url t) (slack_text (name t) current (url t))"
    using changes calls subject body slack by blast
qed

text \<open>
  C2, amended, at the Roblox target with \<^verbatim>\<open>OPERATIONAL\<close> stored and a page that reports
  an outage.
\<close>

theorem status_change_alert_witness:
  "status_changes (fst (loop_body example_config roblox outage_page
                          (map_of [(url roblox, ''OPERATIONAL'')]))) =
     [(''OPERATIONAL'', ''OUTAGE DETECTED'')] \<and>
   channel_calls (fst (loop_body example_config roblox outage_page
                         (map_of [(url roblox, ''OPERATIONAL'')]))) =
     [Smtp_session (email_sender example_config) (email_password example_config)
        (compose_email example_config (name roblox) ''OUTAGE DETECTED'' (url roblox) []),
      Http_post (slack_webhook_url example_config)
        (slack_text (name roblox) ''OUTAGE DETECTED'' (url roblox))]"
proof -
  let ?src = "''<p>User reports indicate problems at Roblox</p>''"
  have f: "fetch outage_page = Fetched ?src ''Roblox down?''"
    by (simp add: outage_page_def)
  have b: "\<not> py_in ''just a moment'' (lower ''Roblox down?'')"
    by code_simp
  have c: "current_status_of roblox (lower ?src) = Some ''OUTAGE DETECTED''"
    by code_simp
  have h: "fetch outage_page = Fetched ?src ''Roblox down?'' \<and>
           \<not> py_in ''just a moment'' (lower ''Roblox down?'') \<and>
           current_status_of roblox (lower ?src) = Some ''OUTAGE DETECTED'' \<and>
           map_of [(url roblox, ''OPERATIONAL'')] (url roblox) = Some ''OPERATIONAL'' \<and>
           ''OPERATIONAL'' \<noteq> ''initial'' \<and> ''OPERATIONAL'' \<noteq> ''OUTAGE DETECTED''"
    using f b c by simp
  have e: "slack_enabled example_config"
    by (simp add: slack_enabled_def example_config_def)
  note t = status_change_alert [where w = outage_page and t = roblox and cfg = example_config
      and site_states = "map_of [(url roblox, ''OPERATIONAL'')]", THEN mp, OF h]
  from t e show ?thesis by simp
qed

section \<open>The state store\<close>

text \<open>
  When \<^verbatim>\<open>send_slack_alert\<close> lets an exception through: Slack is enabled and
  \<^verbatim>\<open>requests.post\<close> raises an exception that is neither \<^verbatim>\<open>Timeout\<close> nor another
  \<^verbatim>\<open>RequestException\<close>.
\<close>

lemma slack_raises:
  "snd (send_slack_alert cfg site_name status u ho) =
     (if slack_enabled cfg then
        (case ho of Unhandled_exception e \<Rightarrow> Some (Slack_exception e) | _ \<Rightarrow> None)
      else None)"
  by (cases ho) (simp_all add: send_slack_alert_def)

text \<open>
  The store after the loop body on the paths where no exception leaves
  \<^verbatim>\<open>send_slack_alert\<close>: after a classification the entry at the target's URL is the new
  status; when the fetch raises, when the page is a block page, and when the mode is
  unknown, the store is left as it was. The entries of the other URLs are never touched, and
  the URL of every target of the list is a key of the store at every pass of the loop.
\<close>

lemma store_unless_slack_raises:
  "(fetch w = Fetched source title \<and> \<not> py_in ''just a moment'' (lower title) \<and>
    current_status_of t (lower source) = Some current \<and> url t \<in> dom site_states \<and>
    snd (send_slack_alert cfg (name t) current (url t) (http w)) = None \<longrightarrow>
      snd (loop_body cfg t w site_states) (url t) = Some current) \<and>
   (fetch w = Get_raises e \<or> fetch w = Page_source_raises e \<or> fetch w = Title_raises e \<longrightarrow>
      snd (loop_body cfg t w site_states) = site_states) \<and>
   (fetch w = Fetched source title \<and> py_in ''just a moment'' (lower title) \<longrightarrow>
      snd (loop_body cfg t w site_states) = site_states) \<and>
   (fetch w = Fetched source title \<and> current_status_of t (lower source) = None \<longrightarrow>
      snd (loop_body cfg t w site_states) = site_states) \<and>
   (key \<noteq> url t \<longrightarrow> snd (loop_body cfg t w site_states) key = site_states key) \<and>
   (t \<in> set targets \<longrightarrow>
      url t \<in> dom (snd (while_true cfg envs targets k n (initial_states targets))))"
proof -
  have "t \<in> set targets \<longrightarrow>
      url t \<in> dom (snd (while_true cfg envs targets k n (initial_states targets)))"
    by (simp add: dom_while_true dom_initial_states)
  then show ?thesis
    by (auto simp add: snd_loop_body split: fetch_outcome.splits option.splits if_splits)
qed

text \<open>
  C3 does not hold of the code. The update of the store (line 379) comes after the two
  alert calls, and \<^verbatim>\<open>send_slack_alert\<close>, unlike \<^verbatim>\<open>send_email_alert\<close>, has no handler
  \<^verbatim>\<open>except Exception\<close>. When a change from \<^verbatim>\<open>OPERATIONAL\<close> to
  \<^verbatim>\<open>OUTAGE DETECTED\<close> has been classified and \<^verbatim>\<open>requests.post\<close> raises an exception
  that is not a \<^verbatim>\<open>RequestException\<close>, the exception is caught by the handler of the loop
  (line 381), the error is printed, and the store still holds \<^verbatim>\<open>OPERATIONAL\<close>; with a
  webhook request that returns, the store holds \<^verbatim>\<open>OUTAGE DETECTED\<close>. At the next visit
  the same change is found again and the same e-mail and Slack request are sent again.
\<close>

theorem store_not_updated_when_slack_raises:
  "fst (loop_body example_config roblox slack_escapes
          (map_of [(url roblox, ''OPERATIONAL'')])) =
     [Print (Checking ''Roblox''), Driver_get (url roblox), Sleep_uniform 5 8,
      Print (Status ''OUTAGE DETECTED''),
      Print (Status_change ''OPERATIONAL'' ''OUTAGE DETECTED''),
      Smtp_session (email_sender example_config) (email_password example_config)
        (compose_email example_config ''Roblox'' ''OUTAGE DETECTED'' (url roblox) []),
      Print (Email_sent 2),
      Http_post (slack_webhook_url example_config)
        (slack_text ''Roblox'' ''OUTAGE DETECTED'' (url roblox)),
      Print (Error (Slack_exception ''LocationParseError'')),
      Sleep 10] \<and>
   snd (loop_body example_config roblox slack_escapes
          (map_of [(url roblox, ''OPERATIONAL'')])) (url roblox) = Some ''OPERATIONAL'' \<and>
   snd (loop_body example_config roblox outage_page
          (map_of [(url roblox, ''OPERATIONAL'')])) (url roblox) = Some ''OUTAGE DETECTED'' \<and>
   channel_calls (fst (loop_body example_config roblox outage_page
                         (snd (loop_body example_config roblox slack_escapes
                                 (map_of [(url roblox, ''OPERATIONAL'')]))))) =
   channel_calls (fst (loop_body example_config roblox slack_escapes
                         (map_of [(url roblox, ''OPERATIONAL'')])))"
proof -
  let ?src = "''<p>User reports indicate problems at Roblox</p>''"
  let ?store = "map_of [(url roblox, ''OPERATIONAL'')]"
  have b: "\<not> py_in ''just a moment'' (lower ''Roblox down?'')"
    by code_simp
  have c: "current_status_of roblox (lower ?src) = Some ''OUTAGE DETECTED''"
    by code_simp
  have e: "slack_enabled example_config" "check_delay example_config = 10"
    "name roblox = ''Roblox''" "length (email_receivers example_config) = 2"
    by (simp_all add: slack_enabled_def example_config_def roblox_def)
  have raised: "loop_body example_config roblox slack_escapes ?store =
     ([Print (Checking ''Roblox''), Driver_get (url roblox), Sleep_uniform 5 8,
       Print (Status ''OUTAGE DETECTED''),
       Print (Status_change ''OPERATIONAL'' ''OUTAGE DETECTED''),
       Smtp_session (email_sender example_config) (email_password example_config)
         (compose_email example_config ''Roblox'' ''OUTAGE DETECTED'' (url roblox) []),
       Print (Email_sent 2),
       Http_post (slack_webhook_url example_config)
         (slack_text ''Roblox'' ''OUTAGE DETECTED'' (url roblox)),
       Print (Error (Slack_exception ''LocationParseError'')),
       Sleep 10], ?store)"
    using loop_body_classified [of slack_escapes ?src "''Roblox down?''" roblox
        "''OUTAGE DETECTED''" ?store "''OPERATIONAL''" example_config] b c
    by (simp add: slack_escapes_def e send_email_alert_def send_slack_alert_def)
  have returned: "snd (loop_body example_config roblox outage_page ?store) (url roblox) =
     Some ''OUTAGE DETECTED''"
    using loop_body_classified [of outage_page ?src "''Roblox down?''" roblox
        "''OUTAGE DETECTED''" ?store "''OPERATIONAL''" example_config] b c
    by (simp add: outage_page_def e send_slack_alert_def)
  have kept: "snd (loop_body example_config roblox slack_escapes ?store) = ?store"
    using raised by simp
  have f: "fetch outage_page = Fetched ?src ''Roblox down?''"
    "fetch slack_escapes = Fetched ?src ''Roblox down?''"
    by (simp_all add: outage_page_def slack_escapes_def)
  have again: "channel_calls (fst (loop_body example_config roblox outage_page
                         (snd (loop_body example_config roblox slack_escapes ?store)))) =
     channel_calls (fst (loop_body example_config roblox slack_escapes ?store))"
    unfolding kept using b c f by (simp add: channel_calls_loop_body)
  show ?thesis
    using raised returned again by simp
qed

section \<open>Failures of the channels, and the pace of the loop\<close>

text \<open>Every path through the loop body visits the target's URL exactly once.\<close>

lemma visits_append: "visits (xs @ ys) = visits xs @ visits ys"
  by (induction xs rule: visits.induct) simp_all

lemma visits_email: "visits (send_email_alert cfg site_name status u extra so) = []"
  by (cases so) (simp_all add: send_email_alert_def)

lemma visits_slack: "visits (fst (send_slack_alert cfg site_name status u ho)) = []"
  by (cases ho) (simp_all add: send_slack_alert_def)

lemma visits_loop_body: "visits (fst (loop_body cfg t w site_states)) = [url t]"
proof (cases "fetch w")
  case (Fetched source title)
  show ?thesis
  proof (cases "py_in ''just a moment'' (lower title)")
    case True
    with Fetched show ?thesis
      by (simp add: loop_body_blocked)
  next
    case unblocked: False
    show ?thesis
    proof (cases "current_status_of t (lower source)")
      case None
      with Fetched unblocked show ?thesis
        by (simp add: loop_body_unknown_mode)
    next
      case (Some current)
      show ?thesis
      proof (cases "site_states (url t)")
        case None
        with Fetched unblocked Some show ?thesis
          by (simp add: loop_body_missing_key)
      next
        case stored: (Some previous)
        with Fetched unblocked Some show ?thesis
          by (simp add: loop_body_classified visits_append visits_email visits_slack
              split: option.splits)
      qed
    qed
  qed
qed (simp_all add: loop_body_get_raises loop_body_read_raises)

lemma visits_for_targets:
  "visits (fst (for_targets cfg env i ts site_states)) = map url ts"
  by (induction ts arbitrary: i site_states)
     (simp_all add: for_targets_Cons visits_append visits_loop_body del: for_targets.simps(2))

lemma visits_cycle: "visits (fst (cycle cfg env targets site_states)) = map url targets"
  by (simp add: cycle_parts visits_append visits_for_targets)

lemma visits_while_true:
  "visits (fst (while_true cfg envs targets k n site_states)) =
     concat (replicate n (map url targets))"
  by (induction n arbitrary: k site_states)
     (simp_all add: while_true_Suc visits_append visits_cycle del: while_true.simps(2))

text \<open>
  C5. When an alert is due, the loop body runs \<^verbatim>\<open>send_email_alert\<close> and then
  \<^verbatim>\<open>send_slack_alert\<close> with the same name, status and URL, whatever the SMTP session
  does (authentication error, SMTP error, any other exception): with Slack enabled the
  webhook request is made. Whatever the webhook request does in turn, an exception that
  leaves \<^verbatim>\<open>send_slack_alert\<close> included, the loop body goes on to the pause between
  targets, after the print of the error if there was one. No outcome ends the loop: every
  pass visits every target, and \<open>n\<close> passes visit the list of targets \<open>n\<close> times.
\<close>

theorem channel_failure_is_contained:
  "(fetch w = Fetched source title \<and> \<not> py_in ''just a moment'' (lower title) \<and>
    current_status_of t (lower source) = Some current \<and>
    site_states (url t) = Some previous \<and> previous \<noteq> ''initial'' \<and> previous \<noteq> current \<longrightarrow>
      fst (loop_body cfg t w site_states) =
        [Print (Checking (name t)), Driver_get (url t), Sleep_uniform 5 8,
         Print (Status current), Print (Status_change previous current)] @
        send_email_alert cfg (name t) current (url t) [] (smtp w) @
        fst (send_slack_alert cfg (name t) current (url t) (http w)) @
        (case snd (send_slack_alert cfg (name t) current (url t) (http w)) of
           None \<Rightarrow> []
         | Some e \<Rightarrow> [Print (Error e)]) @
        [Sleep (check_delay cfg)] \<and>
      (slack_enabled cfg \<longrightarrow>
         Http_post (slack_webhook_url cfg) (slack_text (name t) current (url t))
           \<in> set (fst (send_slack_alert cfg (name t) current (url t) (http w))))) \<and>
   visits (fst (for_targets cfg env i targets site_states)) = map url targets \<and>
   visits (fst (while_true cfg envs targets k n site_states)) =
     concat (replicate n (map url targets))"
proof -
  have post: "Http_post (slack_webhook_url cfg) (slack_text site_name status u)
                \<in> set (fst (send_slack_alert cfg site_name status u ho))"
    if "slack_enabled cfg" for site_name status u ho
    using that by (cases ho) (simp_all add: send_slack_alert_def)
  show ?thesis
    using post
    by (simp add: loop_body_classified visits_for_targets visits_while_true
        split: option.splits)
qed

text \<open>
  C5 at a visit during which the SMTP login is refused and the webhook request times out,
  and at a visit during which the webhook request raises an exception that
  \<^verbatim>\<open>send_slack_alert\<close> does not handle: the Slack request follows the e-mail attempt,
  and the body ends with the pause.
\<close>

theorem channel_failure_is_contained_witness:
  "fst (loop_body example_config roblox failing_channels
          (map_of [(url roblox, ''OPERATIONAL'')])) =
     [Print (Checking ''Roblox''), Driver_get (url roblox), Sleep_uniform 5 8,
      Print (Status ''OUTAGE DETECTED''),
      Print (Status_change ''OPERATIONAL'' ''OUTAGE DETECTED''),
      Smtp_session (email_sender example_config) (email_password example_config)
        (compose_email example_config ''Roblox'' ''OUTAGE DETECTED'' (url roblox) []),
      Print Email_auth_failed,
      Http_post (slack_webhook_url example_config)
        (slack_text ''Roblox'' ''OUTAGE DETECTED'' (url roblox)),
      Print Slack_timeout,
      Sleep 10] \<and>
   fst (loop_body example_config roblox slack_escapes
          (map_of [(url roblox, ''OPERATIONAL'')])) =
     [Print (Checking ''Roblox''), Driver_get (url roblox), Sleep_uniform 5 8,
      Print (Status ''OUTAGE DETECTED''),
      Print (Status_change ''OPERATIONAL'' ''OUTAGE DETECTED''),
      Smtp_session (email_sender example_config) (email_password example_config)
        (compose_email example_config ''Roblox'' ''OUTAGE DETECTED'' (url roblox) []),
      Print (Email_sent 2),
      Http_post (slack_webhook_url example_config)
        (slack_text ''Roblox'' ''OUTAGE DETECTED'' (url roblox)),
      Print (Error (Slack_exception ''LocationParseError'')),
      Sleep 10]"
proof -
  let ?src = "''<p>User reports indicate problems at Roblox</p>''"
  have b: "\<not> py_in ''just a moment'' (lower ''Roblox down?'')"
    by code_simp
  have c: "current_status_of roblox (lower ?src) = Some ''OUTAGE DETECTED''"
    by code_simp
  have h1: "fetch failing_channels = Fetched ?src ''Roblox down?'' \<and>
           \<not> py_in ''just a moment'' (lower ''Roblox down?'') \<and>
           current_status_of roblox (lower ?src) = Some ''OUTAGE DETECTED'' \<and>
           map_of [(url roblox, ''OPERATIONAL'')] (url roblox) = Some ''OPERATIONAL'' \<and>
           ''OPERATIONAL'' \<noteq> ''initial'' \<and> ''OPERATIONAL'' \<noteq> ''OUTAGE DETECTED''"
    using b c by (simp add: failing_channels_def)
  have h2: "fetch slack_escapes = Fetched ?src ''Roblox down?'' \<and>
           \<not> py_in ''just a moment'' (lower ''Roblox down?'') \<and>
           current_status_of roblox (lower ?src) = Some ''OUTAGE DETECTED'' \<and>
           map_of [(url roblox, ''OPERATIONAL'')] (url roblox) = Some ''OPERATIONAL'' \<and>
           ''OPERATIONAL'' \<noteq> ''initial'' \<and> ''OPERATIONAL'' \<noteq> ''OUTAGE DETECTED''"
    using b c by (simp add: slack_escapes_def)
  note t1 = channel_failure_is_contained [where w = failing_channels and t = roblox
      and cfg = example_config and site_states = "map_of [(url roblox, ''OPERATIONAL'')]",
      THEN conjunct1, THEN mp, OF h1, THEN conjunct1]
  note t2 = channel_failure_is_contained [where w = slack_escapes and t = roblox
      and cfg = example_config and site_states = "map_of [(url roblox, ''OPERATIONAL'')]",
      THEN conjunct1, THEN mp, OF h2, THEN conjunct1]
  have e: "slack_enabled example_config" "check_delay example_config = 10"
    "name roblox = ''Roblox''" "length (email_receivers example_config) = 2"
    "smtp failing_channels = SMTPAuthenticationError" "http failing_channels = Timeout"
    "smtp slack_escapes = Smtp_ok"
    "http slack_escapes = Unhandled_exception ''LocationParseError''"
    by (simp_all add: slack_enabled_def example_config_def roblox_def failing_channels_def
        slack_escapes_def)
  show ?thesis
    using t1 t2 by (simp add: e send_email_alert_def send_slack_alert_def)
qed

section \<open>Start-up validation\<close>

text \<open>
  C7. \<^verbatim>\<open>Config.validate\<close> raises \<^verbatim>\<open>SystemExit(1)\<close> exactly when the sender, the
  password or the list of receivers is empty, and returns \<^verbatim>\<open>True\<close> otherwise. In the
  first case \<^verbatim>\<open>start_monitoring\<close> ends with exit status 1 having done nothing but the
  prints of the validation: no pass of the loop is started and no page is visited. A missing
  Slack webhook URL alone is not fatal: the warning is printed, the loop runs, Slack is
  disabled and \<^verbatim>\<open>send_slack_alert\<close> returns without any effect or exception.
\<close>

theorem validate_fatal_for_email_only:
  "(snd (validate cfg) = Inl 1) =
     (email_sender cfg = [] \<or> email_password cfg = [] \<or> email_receivers cfg = []) \<and>
   (snd (validate cfg) = Inr True) =
     (email_sender cfg \<noteq> [] \<and> email_password cfg \<noteq> [] \<and> email_receivers cfg \<noteq> []) \<and>
   (email_sender cfg = [] \<or> email_password cfg = [] \<or> email_receivers cfg = [] \<longrightarrow>
      start_monitoring cfg targets browser envs n = (map Print (fst (validate cfg)), Exited 1) \<and>
      visits (fst (start_monitoring cfg targets browser envs n)) = [] \<and>
      Print Cycle_header \<notin> set (fst (start_monitoring cfg targets browser envs n))) \<and>
   (email_sender cfg \<noteq> [] \<and> email_password cfg \<noteq> [] \<and> email_receivers cfg \<noteq> [] \<and>
    slack_webhook_url cfg = [] \<longrightarrow>
      validate cfg = ([Slack_warning], Inr True) \<and>
      snd (start_monitoring cfg targets None envs n) = Running \<and>
      \<not> slack_enabled cfg \<and>
      send_slack_alert cfg site_name status u ho = ([], None))"
proof -
  have v: "validate cfg =
     ((if slack_webhook_url cfg = [] then [Slack_warning] else []) @
      (if email_sender cfg = [] \<or> email_password cfg = [] \<or> email_receivers cfg = [] then
         [Configuration_error
            ((if email_sender cfg = [] then [''EMAIL_SENDER is not set''] else []) @
             (if email_password cfg = [] then [''EMAIL_PASSWORD is not set''] else []) @
             (if email_receivers cfg = [] then [''EMAIL_RECEIVERS is not set or empty'']
              else []))]
       else []),
      if email_sender cfg = [] \<or> email_password cfg = [] \<or> email_receivers cfg = [] then Inl 1
      else Inr True)"
    by (simp add: validate_def Let_def)
  have prints: "visits (map Print out) = []" for out
    by (induction out) simp_all
  have fatal: "start_monitoring cfg targets browser envs n =
                 (map Print (fst (validate cfg)), Exited 1)"
    if "email_sender cfg = [] \<or> email_password cfg = [] \<or> email_receivers cfg = []"
    using that unfolding start_monitoring_def v by (simp del: map_append)
  have running: "snd (start_monitoring cfg targets None envs n) = Running"
    if "email_sender cfg \<noteq> [] \<and> email_password cfg \<noteq> [] \<and> email_receivers cfg \<noteq> []"
    using that unfolding start_monitoring_def v by (simp add: Let_def)
  have header: "Print Cycle_header \<notin> set (map Print (fst (validate cfg)))"
    unfolding v by auto
  show ?thesis
    using fatal running header prints [of "fst (validate cfg)"]
    by (auto simp add: v slack_enabled_def send_slack_alert_def)
qed

text \<open>
  C7 at the example configuration with the password removed, complete, with the receivers
  removed, and with the webhook URL removed.
\<close>

theorem validate_fatal_for_email_only_witness:
  "snd (validate (example_config\<lparr>email_password := []\<rparr>)) = Inl 1 \<and>
   snd (validate example_config) = Inr True \<and>
   start_monitoring (example_config\<lparr>email_receivers := []\<rparr>) TARGETS None all_fine 3 =
     (map Print (fst (validate (example_config\<lparr>email_receivers := []\<rparr>))), Exited 1) \<and>
   validate (example_config\<lparr>slack_webhook_url := []\<rparr>) = ([Slack_warning], Inr True) \<and>
   snd (start_monitoring (example_config\<lparr>slack_webhook_url := []\<rparr>) TARGETS None all_fine 3) =
     Running \<and>
   send_slack_alert (example_config\<lparr>slack_webhook_url := []\<rparr>) ''Roblox'' ''OUTAGE DETECTED''
     ''https://downdetector.com/status/roblox/'' (Response 200 ''ok'') = ([], None)"
proof -
  let ?no_password = "example_config\<lparr>email_password := []\<rparr>"
  let ?no_receivers = "example_config\<lparr>email_receivers := []\<rparr>"
  let ?no_slack = "example_config\<lparr>slack_webhook_url := []\<rparr>"
  have h1: "email_sender ?no_password = [] \<or> email_password ?no_password = [] \<or>
            email_receivers ?no_password = []"
    by simp
  have h2: "email_sender example_config \<noteq> [] \<and> email_password example_config \<noteq> [] \<and>
            email_receivers example_config \<noteq> []"
    by (simp add: example_config_def)
  have h3: "email_sender ?no_receivers = [] \<or> email_password ?no_receivers = [] \<or>
            email_receivers ?no_receivers = []"
    by simp
  have h4: "email_sender ?no_slack \<noteq> [] \<and> email_password ?no_slack \<noteq> [] \<and>
            email_receivers ?no_slack \<noteq> [] \<and> slack_webhook_url ?no_slack = []"
    by (simp add: example_config_def)
  note t1 = validate_fatal_for_email_only [where cfg = ?no_password,
      THEN conjunct1, THEN iffD2, OF h1]
  note t2 = validate_fatal_for_email_only [where cfg = example_config,
      THEN conjunct2, THEN conjunct1, THEN iffD2, OF h2]
  note t3 = validate_fatal_for_email_only [where cfg = ?no_receivers and targets = TARGETS
      and browser = None and envs = all_fine and n = 3,
      THEN conjunct2, THEN conjunct2, THEN conjunct1, THEN mp, OF h3, THEN conjunct1]
  note t4 = validate_fatal_for_email_only [where cfg = ?no_slack and targets = TARGETS
      and envs = all_fine and n = 3 and site_name = "''Roblox''"
      and status = "''OUTAGE DETECTED''" and u = "''https://downdetector.com/status/roblox/''"
      and ho = "Response 200 ''ok''",
      THEN conjunct2, THEN conjunct2, THEN conjunct2, THEN mp, OF h4]
  show ?thesis
    using t1 t2 t3 t4 by blast
qed

section \<open>The pause between targets\<close>

text \<open>
  C8 does not hold of the code. The pause \<^verbatim>\<open>time.sleep(config.check_delay)\<close> stands
  after the \<^verbatim>\<open>try\<close> statement, and both skip paths leave the \<^verbatim>\<open>try\<close> block with
  \<^verbatim>\<open>continue\<close>, which starts the next target at once. For a block page and for a
  target of unknown mode the effects of the loop body end with the print; after a fetch that
  raises they end with the pause of 10 seconds. In a pass over two blocked targets the second
  visit follows the first print directly.
\<close>

theorem continue_skips_check_delay:
  "fst (loop_body example_config roblox blocked_page (initial_states TARGETS)) =
     [Print (Checking ''Roblox''), Driver_get (url roblox), Sleep_uniform 5 8, Print Blocked] \<and>
   fst (loop_body example_config unknown_mode_target fine_page (initial_states TARGETS)) =
     [Print (Checking ''Billing API''), Driver_get (url unknown_mode_target), Sleep_uniform 5 8,
      Print (Unknown_mode ''api'')] \<and>
   fst (loop_body example_config roblox unreachable_page (initial_states TARGETS)) =
     [Print (Checking ''Roblox''), Driver_get (url roblox),
      Print (Error (Driver_exception ''net::ERR_NAME_NOT_RESOLVED'')), Sleep 10] \<and>
   fst (for_targets example_config all_blocked 0 [roblox, openai] (initial_states TARGETS)) =
     [Print (Checking ''Roblox''), Driver_get (url roblox), Sleep_uniform 5 8, Print Blocked,
      Print (Checking ''OpenAI API''), Driver_get (url openai), Sleep_uniform 5 8,
      Print Blocked]"
proof -
  let ?fine = "''<p>User reports indicate no current problems at Roblox</p>''"
  let ?blk = "''<html>Checking your browser</html>''"
  have t: "py_in ''just a moment'' (lower ''Just a moment...'')"
    by code_simp
  have b: "\<not> py_in ''just a moment'' (lower ''Roblox down?'')"
    by code_simp
  have blocked: "fst (loop_body example_config tg blocked_page site_states) =
      [Print (Checking (name tg)), Driver_get (url tg), Sleep_uniform 5 8, Print Blocked]"
    for tg site_states
    using t loop_body_blocked [of blocked_page ?blk "''Just a moment...''"]
    by (simp add: blocked_page_def)
  have unknown: "fst (loop_body example_config unknown_mode_target fine_page
                        (initial_states TARGETS)) =
      [Print (Checking ''Billing API''), Driver_get (url unknown_mode_target), Sleep_uniform 5 8,
       Print (Unknown_mode ''api'')]"
    using b loop_body_unknown_mode [of fine_page ?fine "''Roblox down?''" unknown_mode_target]
    by (simp add: fine_page_def current_status_of_def unknown_mode_target_def)
  have raised: "fst (loop_body example_config roblox unreachable_page (initial_states TARGETS)) =
      [Print (Checking ''Roblox''), Driver_get (url roblox),
       Print (Error (Driver_exception ''net::ERR_NAME_NOT_RESOLVED'')), Sleep 10]"
    using loop_body_get_raises [of unreachable_page "''net::ERR_NAME_NOT_RESOLVED''"]
    by (simp add: unreachable_page_def example_config_def roblox_def)
  have names: "name roblox = ''Roblox''" "name openai = ''OpenAI API''"
    by (simp_all add: roblox_def openai_def)
  have pass: "fst (for_targets example_config all_blocked 0 [roblox, openai]
                     (initial_states TARGETS)) =
      [Print (Checking ''Roblox''), Driver_get (url roblox), Sleep_uniform 5 8, Print Blocked,
       Print (Checking ''OpenAI API''), Driver_get (url openai), Sleep_uniform 5 8,
       Print Blocked]"
    by (simp add: for_targets_Cons all_blocked_def blocked names del: for_targets.simps(2))
  show ?thesis
    using blocked [of roblox "initial_states TARGETS"] unknown raised pass
    by (simp add: names)
qed

end
